theory Spec2Isabelle
  imports Complex_Main
begin

section \<open>The yTwist deformer node (RandomPoints.cpp)\<close>

text \<open>
  The plug-in is a single dependency-graph node, \<open>yTwist\<close>, that the host calls through
  \<open>initialize\<close> (once, to register attributes) and \<open>deform\<close> (once per evaluation).
  Everything the node touches belongs to the host: the data block it reads attributes
  from, the geometry iterator it reads and writes points through, the attribute registry,
  and the error stream. Each of these is modelled as an explicit value that the node's
  functions take and return.

  Numbers: the C++ \<open>double\<close> and \<open>float\<close> values are modelled by \<open>real\<close>, that is, by exact
  arithmetic with the mathematical \<open>cos\<close> and \<open>sin\<close>. Rounding, overflow, infinities and
  NaN are outside this model. The properties below are therefore those that say which
  operations the code applies to which operands, and what it leaves alone. Properties
  that need the arithmetic to be exact are not stated: in binary64 the product
  \<open>magnitude * pt.y * env\<close> can overflow to NaN although one factor is 0, and
  \<open>x\<^sup>2 + z\<^sup>2\<close> is kept only up to rounding.
\<close>

subsection \<open>Host data types\<close>

text \<open>The status codes of \<open>MStatus::MStatusCode\<close>.\<close>

datatype MStatus =
    kSuccess
  | kFailure
  | kInsufficientMemory
  | kInvalidParameter
  | kLicenseFailure
  | kUnknownParameter
  | kNotImplemented
  | kNotFound
  | kEndOfFile

text \<open>An \<open>MObject\<close> is an opaque handle to an object owned by the host.\<close>

type_synonym MObject = nat

text \<open>
  \<open>MPoint\<close>: a homogeneous point with public members \<open>x\<close>, \<open>y\<close>, \<open>z\<close>, \<open>w\<close>. The
  selectors carry the prefix \<open>pt_\<close> so that they do not capture the variables of the
  same names.
\<close>

record MPoint =
  pt_x :: real
  pt_y :: real
  pt_z :: real
  pt_w :: real

text \<open>
  \<open>MDataHandle\<close>: what the two accessors used by the node return for the handle.
\<close>

record MDataHandle =
  asDouble :: real
  asFloat :: real

text \<open>
  \<open>MDataBlock\<close>: \<open>inputValue (attribute, &status)\<close> yields a handle and stores the call's
  outcome in \<open>status\<close>. The block is the table of what that call yields per attribute.
\<close>

record MDataBlock =
  inputValue :: "MObject \<Rightarrow> MStatus \<times> MDataHandle"

text \<open>
  \<open>MItGeometry\<close>: a cursor over the points of the geometry being deformed. \<open>position\<close> and
  \<open>setPosition\<close> act on the point under the cursor; the node calls them only while
  \<open>isDone\<close> is false, that is, with the cursor in range.
\<close>

record MItGeometry =
  points :: "MPoint list"
  index :: nat

definition isDone :: "MItGeometry \<Rightarrow> bool" where
  "isDone iter = (length (points iter) \<le> index iter)"

definition next_point :: "MItGeometry \<Rightarrow> MItGeometry" where
  "next_point iter = iter\<lparr>index := Suc (index iter)\<rparr>"

definition position :: "MItGeometry \<Rightarrow> MPoint" where
  "position iter = points iter ! index iter"

definition setPosition :: "MItGeometry \<Rightarrow> MPoint \<Rightarrow> MItGeometry" where
  "setPosition iter pt = iter\<lparr>points := (points iter)[index iter := pt]\<rparr>"

text \<open>
  The static attribute handles of the node class: \<open>angle\<close> is the node's own, \<open>envelope\<close>
  and \<open>outputGeom\<close> are inherited from \<open>MPxGeometryFilter\<close>.
\<close>

record yTwist =
  angle :: MObject
  envelope :: MObject
  outputGeom :: MObject

subsection \<open>The deformation\<close>

text \<open>
  The macro \<open>McheckErr (stat, msg)\<close>: when \<open>stat\<close> is not \<open>kSuccess\<close> it writes \<open>msg\<close> to
  \<open>cerr\<close> and makes the enclosing function return \<open>kFailure\<close>. The model returns the new
  error stream in that case and \<open>None\<close> when execution continues.
\<close>

definition McheckErr :: "MStatus \<Rightarrow> string \<Rightarrow> string list \<Rightarrow> string list option" where
  "McheckErr stat msg cerr = (if kSuccess \<noteq> stat then Some (cerr @ [msg]) else None)"

definition angle_msg :: string where
  "angle_msg = ''Error getting angle data handle'' @ [CHR 0x0A]"

definition envelope_msg :: string where
  "envelope_msg = ''Error getting envelope data handle'' @ [CHR 0x0A]"

text \<open>
  The body of the loop between \<open>iter.position ()\<close> and \<open>iter.setPosition (pt)\<close>
  (``do the twist''), on the local copy \<open>pt\<close>.
\<close>

definition twist :: "real \<Rightarrow> real \<Rightarrow> MPoint \<Rightarrow> MPoint" where
  "twist magnitude env pt =
     (let ff = magnitude * pt_y pt * env in
      if ff \<noteq> 0 then
        (let cct = cos ff;
             cst = sin ff;
             tt = pt_x pt * cct - pt_z pt * cst;
             pt1 = pt\<lparr>pt_z := pt_x pt * cst + pt_z pt * cct\<rparr>;
             pt2 = pt1\<lparr>pt_x := tt\<rparr>
         in pt2)
      else pt)"

text \<open>The loop \<open>for (; !iter.isDone (); iter.next ())\<close>.\<close>

function deform_loop :: "real \<Rightarrow> real \<Rightarrow> MItGeometry \<Rightarrow> MItGeometry" where
  "deform_loop magnitude env iter =
     (if \<not> isDone iter then
        (let pt = position iter;
             pt' = twist magnitude env pt;
             iter' = setPosition iter pt'
         in deform_loop magnitude env (next_point iter'))
      else iter)"
  by pat_completeness auto
termination
  by (relation "measure (\<lambda>(magnitude, env, iter). length (points iter) - index iter)")
     (auto simp: isDone_def next_point_def setPosition_def)

text \<open>
  \<open>yTwist::deform\<close>. The matrix and the multi-index are unused by the source. The result
  is the returned status, the iterator (with the geometry) and the error stream.
\<close>

definition deform ::
  "yTwist \<Rightarrow> MDataBlock \<Rightarrow> MItGeometry \<Rightarrow> string list \<Rightarrow> MStatus \<times> MItGeometry \<times> string list"
where
  "deform node block iter cerr =
     (let (status, angleData) = inputValue block (angle node) in
      case McheckErr status angle_msg cerr of
        Some cerr' \<Rightarrow> (kFailure, iter, cerr')
      | None \<Rightarrow>
         (let magnitude = asDouble angleData;
              (status, envData) = inputValue block (envelope node) in
          case McheckErr status envelope_msg cerr of
            Some cerr' \<Rightarrow> (kFailure, iter, cerr')
          | None \<Rightarrow>
             (let env = asFloat envData;
                  iter' = deform_loop magnitude env iter
              in (status, iter', cerr))))"


subsection \<open>Attribute registration\<close>

text \<open>
  The part of the host that \<open>yTwist::initialize\<close> talks to: a store of attribute objects
  addressed by \<open>MObject\<close> handles, the next unused handle, the attributes added to the
  node class (in order), and the declared dependencies between attributes. The
  \<open>MFnNumericAttribute\<close> function set \<open>nAttr\<close> is the handle of the object it is attached
  to; \<open>setDefault\<close> and \<open>setKeyable\<close> change that object in the store, so the handle kept
  in the static \<open>angle\<close> sees the change. The host calls are modelled in the case where
  they succeed; the source does not look at the status of any of them.
\<close>

datatype MFnNumericData_Type =
    kInvalid
  | kBoolean
  | kByte
  | kChar
  | kShort
  | kInt
  | kFloat
  | kDouble

record numeric_attribute =
  long_name :: string
  short_name :: string
  unit_type :: MFnNumericData_Type
  default_value :: real
  keyable :: bool

record host =
  attribute_objects :: "MObject \<rightharpoonup> numeric_attribute"
  fresh :: MObject
  node_attributes :: "MObject list"
  affects :: "(MObject \<times> MObject) list"

text \<open>
  \<open>MFnNumericAttribute::create (fullName, briefName, unitType)\<close>: a new attribute object
  with default 0 that is not keyable; the function set is attached to it.
\<close>

definition create :: "string \<Rightarrow> string \<Rightarrow> MFnNumericData_Type \<Rightarrow> host \<Rightarrow> MObject \<times> host" where
  "create fullName briefName unitType h =
     (fresh h,
      h\<lparr>attribute_objects := (attribute_objects h)(fresh h \<mapsto>
            \<lparr>long_name = fullName, short_name = briefName, unit_type = unitType,
             default_value = 0, keyable = False\<rparr>),
        fresh := Suc (fresh h)\<rparr>)"

definition setDefault :: "MObject \<Rightarrow> real \<Rightarrow> host \<Rightarrow> host" where
  "setDefault nAttr v h =
     (case attribute_objects h nAttr of
        None \<Rightarrow> h
      | Some a \<Rightarrow> h\<lparr>attribute_objects := (attribute_objects h)(nAttr \<mapsto> a\<lparr>default_value := v\<rparr>)\<rparr>)"

definition setKeyable :: "MObject \<Rightarrow> bool \<Rightarrow> host \<Rightarrow> host" where
  "setKeyable nAttr b h =
     (case attribute_objects h nAttr of
        None \<Rightarrow> h
      | Some a \<Rightarrow> h\<lparr>attribute_objects := (attribute_objects h)(nAttr \<mapsto> a\<lparr>keyable := b\<rparr>)\<rparr>)"

definition addAttribute :: "MObject \<Rightarrow> host \<Rightarrow> host" where
  "addAttribute attr h = h\<lparr>node_attributes := node_attributes h @ [attr]\<rparr>"

definition attributeAffects :: "MObject \<Rightarrow> MObject \<Rightarrow> host \<Rightarrow> host" where
  "attributeAffects whenChanges isAffected h = h\<lparr>affects := affects h @ [(whenChanges, isAffected)]\<rparr>"

text \<open>\<open>yTwist::initialize\<close>: returns the status, the statics of the class and the host.\<close>

definition initialize :: "yTwist \<Rightarrow> host \<Rightarrow> MStatus \<times> yTwist \<times> host" where
  "initialize node h =
     (let (nAttr, h1) = create ''angle'' ''fa'' kDouble h;
          node1 = node\<lparr>angle := nAttr\<rparr>;
          h2 = setDefault nAttr 0 h1;
          h3 = setKeyable nAttr True h2;
          h4 = addAttribute (angle node1) h3;
          h5 = attributeAffects (angle node1) (outputGeom node1) h4
      in (kSuccess, node1, h5))"

subsection \<open>Sample inputs\<close>

text \<open>
  A node class whose three attributes have distinct handles, a data block whose two reads
  end with the given statuses and values, and a geometry of three points, the last of
  which lies in the plane \<open>y = 0\<close>.
\<close>

definition sample_node :: yTwist where
  "sample_node = \<lparr>angle = 0, envelope = 1, outputGeom = 2\<rparr>"

definition sample_block :: "MStatus \<Rightarrow> real \<Rightarrow> MStatus \<Rightarrow> real \<Rightarrow> MDataBlock" where
  "sample_block sa a se e =
     \<lparr>inputValue = (\<lambda>attr. if attr = 0 then (sa, \<lparr>asDouble = a, asFloat = 0\<rparr>)
                            else (se, \<lparr>asDouble = 0, asFloat = e\<rparr>))\<rparr>"

definition sample_iter :: MItGeometry where
  "sample_iter =
     \<lparr>points = [\<lparr>pt_x = 1, pt_y = 1, pt_z = 0, pt_w = 1\<rparr>,
                \<lparr>pt_x = 0, pt_y = 2, pt_z = 1, pt_w = 1\<rparr>,
                \<lparr>pt_x = 3, pt_y = 0, pt_z = 4, pt_w = 1\<rparr>],
      index = 0\<rparr>"

section \<open>Properties\<close>

subsection \<open>The loop as a map over the points from the cursor on\<close>

declare deform_loop.simps [simp del]

lemma deform_loop_points:
  "points (deform_loop magnitude env iter) =
     take (index iter) (points iter) @ map (twist magnitude env) (drop (index iter) (points iter))"
proof (induction magnitude env iter rule: deform_loop.induct)
  case (1 magnitude env iter)
  show ?case
  proof (cases "isDone iter")
    case True
    then show ?thesis
      by (simp add: deform_loop.simps [of magnitude env iter] isDone_def)
  next
    case False
    then have lt: "index iter < length (points iter)"
      by (simp add: isDone_def)
    let ?it = "next_point (setPosition iter (twist magnitude env (position iter)))"
    have step: "deform_loop magnitude env iter = deform_loop magnitude env ?it"
      using False by (simp add: deform_loop.simps [of magnitude env iter])
    have ih: "points (deform_loop magnitude env ?it) =
        take (index ?it) (points ?it) @ map (twist magnitude env) (drop (index ?it) (points ?it))"
      using "1.IH" [OF False refl refl refl] .
    have pts: "points ?it = (points iter)[index iter := twist magnitude env (points iter ! index iter)]"
      and idx: "index ?it = Suc (index iter)"
      by (simp_all add: next_point_def setPosition_def position_def)
    have a: "take (Suc (index iter)) ((points iter)[index iter := twist magnitude env (points iter ! index iter)])
        = take (index iter) (points iter) @ [twist magnitude env (points iter ! index iter)]"
      using lt by (simp add: take_Suc_conv_app_nth)
    have b: "drop (index iter) (points iter) = points iter ! index iter # drop (Suc (index iter)) (points iter)"
      using lt by (simp add: Cons_nth_drop_Suc)
    show ?thesis
      unfolding step ih pts idx a b by simp
  qed
qed

lemma deform_loop_index:
  "index (deform_loop magnitude env iter) = max (index iter) (length (points iter))"
proof (induction magnitude env iter rule: deform_loop.induct)
  case (1 magnitude env iter)
  show ?case
  proof (cases "isDone iter")
    case True
    then show ?thesis
      by (simp add: deform_loop.simps [of magnitude env iter] isDone_def)
  next
    case False
    let ?it = "next_point (setPosition iter (twist magnitude env (position iter)))"
    have step: "deform_loop magnitude env iter = deform_loop magnitude env ?it"
      using False by (simp add: deform_loop.simps [of magnitude env iter])
    have ih: "index (deform_loop magnitude env ?it) = max (index ?it) (length (points ?it))"
      using "1.IH" [OF False refl refl refl] .
    show ?thesis
      unfolding step ih using False
      by (simp add: next_point_def setPosition_def isDone_def)
  qed
qed


subsection \<open>The transform of one point\<close>



lemma twist_y: "pt_y (twist magnitude env pt) = pt_y pt"
  by (simp add: twist_def Let_def)

lemma twist_w: "pt_w (twist magnitude env pt) = pt_w pt"
  by (simp add: twist_def Let_def)

subsection \<open>The three ways through \<open>deform\<close>\<close>

lemma deform_result:
  assumes "inputValue block (angle node) = (sa, angleData)"
    and "inputValue block (envelope node) = (se, envData)"
  shows "deform node block iter cerr =
     (if sa \<noteq> kSuccess then (kFailure, iter, cerr @ [angle_msg])
      else if se \<noteq> kSuccess then (kFailure, iter, cerr @ [envelope_msg])
      else (kSuccess, deform_loop (asDouble angleData) (asFloat envData) iter, cerr))"
  using assms by (auto simp: deform_def McheckErr_def Let_def)

lemma deform_points:
  assumes "inputValue block (angle node) = (sa, angleData)"
    and "inputValue block (envelope node) = (se, envData)"
    and "deform node block iter cerr = (status, iter', cerr')"
  shows "points iter' =
     (if sa = kSuccess \<and> se = kSuccess
      then take (index iter) (points iter) @
             map (twist (asDouble angleData) (asFloat envData)) (drop (index iter) (points iter))
      else points iter)"
  using assms(3) unfolding deform_result [OF assms(1,2)]
  by (auto simp: deform_loop_points split: if_splits)

lemma deform_nth:
  assumes "inputValue block (angle node) = (sa, angleData)"
    and "inputValue block (envelope node) = (se, envData)"
    and "deform node block iter cerr = (status, iter', cerr')"
    and "i < length (points iter)"
  shows "points iter' ! i =
     (if sa = kSuccess \<and> se = kSuccess \<and> index iter \<le> i
      then twist (asDouble angleData) (asFloat envData) (points iter ! i)
      else points iter ! i)"
  using assms(4) unfolding deform_points [OF assms(1,2,3)]
  by (auto simp: nth_append)

subsection \<open>Claims\<close>



text \<open>
  Claim C4. \<open>deform\<close> returns a status other than \<open>kSuccess\<close> exactly when the read of the angle
  handle or the read of the envelope handle ends with a status other than \<open>kSuccess\<close>. The
  status it returns is then \<open>kFailure\<close>, whatever the host's code was, and one message has
  been written to the error stream; otherwise it returns \<open>kSuccess\<close> and writes nothing.
\<close>

theorem deform_status:
  assumes "inputValue block (angle node) = (sa, angleData)"
    and "inputValue block (envelope node) = (se, envData)"
    and "deform node block iter cerr = (status, iter', cerr')"
  shows "(status \<noteq> kSuccess \<longleftrightarrow> sa \<noteq> kSuccess \<or> se \<noteq> kSuccess) \<and>
         (status = kSuccess \<or> status = kFailure) \<and>
         cerr' = (if sa \<noteq> kSuccess then cerr @ [angle_msg]
                  else if se \<noteq> kSuccess then cerr @ [envelope_msg]
                  else cerr)"
  using assms(3) unfolding deform_result [OF assms(1,2)]
  by (auto split: if_splits)

theorem deform_status_witness:
  "fst (deform sample_node (sample_block kSuccess 1 kInvalidParameter 1) sample_iter []) = kFailure \<and>
   snd (snd (deform sample_node (sample_block kSuccess 1 kInvalidParameter 1) sample_iter [])) =
     [envelope_msg]"
proof -
  let ?block = "sample_block kSuccess 1 kInvalidParameter 1"
  let ?r = "deform sample_node ?block sample_iter []"
  have a: "inputValue ?block (angle sample_node) = (kSuccess, \<lparr>asDouble = 1, asFloat = 0\<rparr>)"
    by (simp add: sample_block_def sample_node_def)
  have e: "inputValue ?block (envelope sample_node) = (kInvalidParameter, \<lparr>asDouble = 0, asFloat = 1\<rparr>)"
    by (simp add: sample_block_def sample_node_def)
  have d: "?r = (fst ?r, fst (snd ?r), snd (snd ?r))"
    by simp
  show ?thesis
    using deform_status [OF a e d] by auto
qed


text \<open>
  Claim C6. \<open>deform\<close> never changes the y coordinate of a point, whatever the values of the angle
  attribute and the envelope and whatever the outcome of the reads.
\<close>

theorem deform_keeps_y:
  assumes "deform node block iter cerr = (status, iter', cerr')"
    and "i < length (points iter)"
  shows "pt_y (points iter' ! i) = pt_y (points iter ! i)"
proof -
  obtain sa angleData where a: "inputValue block (angle node) = (sa, angleData)"
    by (cases "inputValue block (angle node)")
  obtain se envData where e: "inputValue block (envelope node) = (se, envData)"
    by (cases "inputValue block (envelope node)")
  show ?thesis
    unfolding deform_nth [OF a e assms] by (simp add: twist_y)
qed

theorem deform_keeps_y_witness:
  "pt_y (points (fst (snd (deform sample_node (sample_block kSuccess 1 kSuccess 1) sample_iter []))) ! 1) = 2"
proof -
  let ?r = "deform sample_node (sample_block kSuccess 1 kSuccess 1) sample_iter []"
  have d: "?r = (fst ?r, fst (snd ?r), snd (snd ?r))"
    by simp
  have l: "1 < length (points sample_iter)"
    by (simp add: sample_iter_def)
  show ?thesis
    using deform_keeps_y [OF d l] by (simp add: sample_iter_def)
qed

text \<open>
  Claim C7. When both reads succeed and the cursor starts at the first point, the points after
  \<open>deform\<close> are the map of one function of (point, angle value, envelope value) over the
  points before it. So the i-th output depends on the i-th input only, and visiting the
  points in the reverse order gives the same outputs, reversed.
\<close>

theorem deform_is_pointwise_map:
  assumes "inputValue block (angle node) = (kSuccess, angleData)"
    and "inputValue block (envelope node) = (kSuccess, envData)"
    and "deform node block iter cerr = (status, iter', cerr')"
    and "index iter = 0"
  shows "points iter' = map (twist (asDouble angleData) (asFloat envData)) (points iter) \<and>
         (\<forall>i < length (points iter).
            points iter' ! i = twist (asDouble angleData) (asFloat envData) (points iter ! i)) \<and>
         points (fst (snd (deform node block (iter\<lparr>points := rev (points iter)\<rparr>) cerr))) =
           rev (points iter')"
proof -
  let ?f = "twist (asDouble angleData) (asFloat envData)"
  have m: "points iter' = map ?f (points iter)"
    unfolding deform_points [OF assms(1,2,3)] using assms(4) by simp
  let ?r = "deform node block (iter\<lparr>points := rev (points iter)\<rparr>) cerr"
  have d: "?r = (fst ?r, fst (snd ?r), snd (snd ?r))"
    by simp
  have r: "points (fst (snd ?r)) = map ?f (rev (points iter))"
    unfolding deform_points [OF assms(1,2) d] using assms(4) by simp
  show ?thesis
    unfolding r m by (simp add: rev_map)
qed

theorem deform_is_pointwise_map_witness:
  "points (fst (snd (deform sample_node (sample_block kSuccess 1 kSuccess 1) sample_iter []))) =
     [\<lparr>pt_x = cos 1, pt_y = 1, pt_z = sin 1, pt_w = 1\<rparr>,
      \<lparr>pt_x = - sin 2, pt_y = 2, pt_z = cos 2, pt_w = 1\<rparr>,
      \<lparr>pt_x = 3, pt_y = 0, pt_z = 4, pt_w = 1\<rparr>]"
proof -
  let ?block = "sample_block kSuccess 1 kSuccess 1"
  let ?r = "deform sample_node ?block sample_iter []"
  have a: "inputValue ?block (angle sample_node) = (kSuccess, \<lparr>asDouble = 1, asFloat = 0\<rparr>)"
    by (simp add: sample_block_def sample_node_def)
  have e: "inputValue ?block (envelope sample_node) = (kSuccess, \<lparr>asDouble = 0, asFloat = 1\<rparr>)"
    by (simp add: sample_block_def sample_node_def)
  have d: "?r = (fst ?r, fst (snd ?r), snd (snd ?r))"
    by simp
  have i: "index sample_iter = 0"
    by (simp add: sample_iter_def)
  show ?thesis
    using deform_is_pointwise_map [OF a e d i]
    by (simp add: sample_iter_def twist_def)
qed

text \<open>
  Claim C8. \<open>initialize\<close> adds exactly one attribute to the node class: a numeric attribute of type
  \<open>kDouble\<close> with long name \<open>angle\<close>, default 0, keyable; it declares that this
  attribute affects \<open>outputGeom\<close>, leaves the inherited handles alone and returns
  \<open>kSuccess\<close>.
\<close>

theorem initialize_registers_angle:
  "case initialize node h of
     (status, node', h') \<Rightarrow>
       status = kSuccess \<and>
       node_attributes h' = node_attributes h @ [angle node'] \<and>
       length (node_attributes h') = Suc (length (node_attributes h)) \<and>
       attribute_objects h' = (attribute_objects h)(angle node' \<mapsto>
         \<lparr>long_name = ''angle'', short_name = ''fa'', unit_type = kDouble,
          default_value = 0, keyable = True\<rparr>) \<and>
       affects h' = affects h @ [(angle node', outputGeom node)] \<and>
       envelope node' = envelope node \<and>
       outputGeom node' = outputGeom node"
  by (simp add: initialize_def create_def setDefault_def setKeyable_def addAttribute_def
      attributeAffects_def Let_def)

text \<open>
  Claim C9. If the read of the angle handle or of the envelope handle fails, \<open>deform\<close> returns
  \<open>kFailure\<close> with the iterator as it received it: no point has been written and the cursor
  has not moved.
\<close>

theorem deform_atomic_on_error:
  assumes "inputValue block (angle node) = (sa, angleData)"
    and "inputValue block (envelope node) = (se, envData)"
    and "deform node block iter cerr = (status, iter', cerr')"
    and "sa \<noteq> kSuccess \<or> se \<noteq> kSuccess"
  shows "iter' = iter \<and> status = kFailure"
  using assms(3,4) unfolding deform_result [OF assms(1,2)]
  by (auto split: if_splits)

theorem deform_atomic_on_error_witness:
  "fst (snd (deform sample_node (sample_block kNotFound 1 kSuccess 1) sample_iter [])) = sample_iter \<and>
   fst (snd (deform sample_node (sample_block kSuccess 1 kFailure 1) sample_iter [])) = sample_iter"
proof -
  let ?b1 = "sample_block kNotFound 1 kSuccess 1"
  let ?r1 = "deform sample_node ?b1 sample_iter []"
  let ?b2 = "sample_block kSuccess 1 kFailure 1"
  let ?r2 = "deform sample_node ?b2 sample_iter []"
  have a1: "inputValue ?b1 (angle sample_node) = (kNotFound, \<lparr>asDouble = 1, asFloat = 0\<rparr>)"
    and e1: "inputValue ?b1 (envelope sample_node) = (kSuccess, \<lparr>asDouble = 0, asFloat = 1\<rparr>)"
    and a2: "inputValue ?b2 (angle sample_node) = (kSuccess, \<lparr>asDouble = 1, asFloat = 0\<rparr>)"
    and e2: "inputValue ?b2 (envelope sample_node) = (kFailure, \<lparr>asDouble = 0, asFloat = 1\<rparr>)"
    by (simp_all add: sample_block_def sample_node_def)
  have d1: "?r1 = (fst ?r1, fst (snd ?r1), snd (snd ?r1))"
    and d2: "?r2 = (fst ?r2, fst (snd ?r2), snd (snd ?r2))"
    by simp_all
  have f1: "kNotFound \<noteq> kSuccess \<or> kSuccess \<noteq> kSuccess"
    and f2: "kSuccess \<noteq> kSuccess \<or> kFailure \<noteq> kSuccess"
    by simp_all
  show ?thesis
    using deform_atomic_on_error [OF a1 e1 d1 f1] deform_atomic_on_error [OF a2 e2 d2 f2]
    by simp
qed

end
